theory Spec2Isabelle
  imports Main "HOL-Library.Word"
begin

section \<open>multimedia.c: the interface for writing multimedia files\<close>

text \<open>
  The module keeps two static file pointers, \<open>sndoutput\<close> and \<open>avioutput\<close>, both
  initialised to \<open>NULL\<close>, and drives the WAV and AVI writers of \<open>file_export.c\<close> through
  them. The model is the build with both \<open>SOUND\<close> and \<open>AVI_VIDEO_RECORDING\<close> defined.

  A \<open>FILE *\<close> is an \<open>option\<close>: \<open>None\<close> is \<open>NULL\<close>, \<open>Some fp\<close> a pointer to the stream
  \<open>fp\<close>. The sample buffer is a pointer to bytes, \<open>None\<close> when it is \<open>NULL\<close>; \<open>uiSize\<close>
  is an \<open>unsigned int\<close>. The results of type \<open>int\<close> are never used in arithmetic,
  only compared with zero, so they are unbounded integers here.
\<close>

type_synonym handle = nat
type_synonym file_ptr = "handle option"
type_synonym buffer_ptr = "8 word list option"

text \<open>
  Modelled from the spec: the macros \<open>TRUE\<close> and \<open>FALSE\<close> come from a header that is not
  part of the sources; the spec calls them success (true) and failure (false), and they
  have C's truth values.
\<close>

definition TRUE :: int where
  "TRUE = 1"

definition FALSE :: int where
  "FALSE = 0"

text \<open>The value of a C comparison: 1 when it holds, 0 when it does not.\<close>

definition c_bool :: "bool \<Rightarrow> int" where
  "c_bool b = (if b then 1 else 0)"

subsection \<open>The encoders of file\_export.c\<close>

text \<open>
  The seven functions the module calls are declared in \<open>file_export.h\<close> and defined
  outside this file, so they are parameters of the model: each one reads and changes a
  world \<open>'w\<close> (the file system and the writers' own statics) and returns its C result.
  Nothing is assumed about them.
\<close>

record 'w encoders =
  WAV_OpenFile :: "string \<Rightarrow> 'w \<Rightarrow> file_ptr \<times> 'w"
  WAV_WriteSamples :: "buffer_ptr \<Rightarrow> 32 word \<Rightarrow> handle \<Rightarrow> 'w \<Rightarrow> int \<times> 'w"
  WAV_CloseFile :: "handle \<Rightarrow> 'w \<Rightarrow> int \<times> 'w"
  AVI_OpenFile :: "string \<Rightarrow> 'w \<Rightarrow> file_ptr \<times> 'w"
  AVI_AddAudioSamples :: "buffer_ptr \<Rightarrow> 32 word \<Rightarrow> handle \<Rightarrow> 'w \<Rightarrow> int \<times> 'w"
  AVI_AddVideoFrame :: "handle \<Rightarrow> 'w \<Rightarrow> int \<times> 'w"
  AVI_CloseFile :: "handle \<Rightarrow> 'w \<Rightarrow> int \<times> 'w"

text \<open>Every call of an encoder is recorded, with its arguments and its result.\<close>

datatype event =
    Ev_WAV_OpenFile string file_ptr
  | Ev_WAV_WriteSamples buffer_ptr "32 word" handle int
  | Ev_WAV_CloseFile handle int
  | Ev_AVI_OpenFile string file_ptr
  | Ev_AVI_AddAudioSamples buffer_ptr "32 word" handle int
  | Ev_AVI_AddVideoFrame handle int
  | Ev_AVI_CloseFile handle int

subsection \<open>The state\<close>

record 'w state =
  sndoutput :: file_ptr
  avioutput :: file_ptr
  world :: 'w
  calls :: "event list"

text \<open>Both statics are initialised to \<open>NULL\<close>; no encoder has been called.\<close>

definition initial :: "'w \<Rightarrow> 'w state" where
  "initial w = \<lparr>sndoutput = None, avioutput = None, world = w, calls = []\<rparr>"

text \<open>The statics of the module: all the state it keeps of its own.\<close>

definition statics :: "'w state \<Rightarrow> file_ptr \<times> file_ptr" where
  "statics s = (sndoutput s, avioutput s)"

subsection \<open>Calling an encoder\<close>

definition do_WAV_OpenFile :: "'w encoders \<Rightarrow> string \<Rightarrow> 'w state \<Rightarrow> file_ptr \<times> 'w state" where
  "do_WAV_OpenFile enc szFileName s =
     (let (r, w) = WAV_OpenFile enc szFileName (world s)
      in (r, s\<lparr>world := w, calls := calls s @ [Ev_WAV_OpenFile szFileName r]\<rparr>))"

definition do_WAV_WriteSamples ::
  "'w encoders \<Rightarrow> buffer_ptr \<Rightarrow> 32 word \<Rightarrow> handle \<Rightarrow> 'w state \<Rightarrow> int \<times> 'w state" where
  "do_WAV_WriteSamples enc ucBuffer uiSize fp s =
     (let (r, w) = WAV_WriteSamples enc ucBuffer uiSize fp (world s)
      in (r, s\<lparr>world := w, calls := calls s @ [Ev_WAV_WriteSamples ucBuffer uiSize fp r]\<rparr>))"

definition do_WAV_CloseFile :: "'w encoders \<Rightarrow> handle \<Rightarrow> 'w state \<Rightarrow> int \<times> 'w state" where
  "do_WAV_CloseFile enc fp s =
     (let (r, w) = WAV_CloseFile enc fp (world s)
      in (r, s\<lparr>world := w, calls := calls s @ [Ev_WAV_CloseFile fp r]\<rparr>))"

definition do_AVI_OpenFile :: "'w encoders \<Rightarrow> string \<Rightarrow> 'w state \<Rightarrow> file_ptr \<times> 'w state" where
  "do_AVI_OpenFile enc szFileName s =
     (let (r, w) = AVI_OpenFile enc szFileName (world s)
      in (r, s\<lparr>world := w, calls := calls s @ [Ev_AVI_OpenFile szFileName r]\<rparr>))"

definition do_AVI_AddAudioSamples ::
  "'w encoders \<Rightarrow> buffer_ptr \<Rightarrow> 32 word \<Rightarrow> handle \<Rightarrow> 'w state \<Rightarrow> int \<times> 'w state" where
  "do_AVI_AddAudioSamples enc ucBuffer uiSize fp s =
     (let (r, w) = AVI_AddAudioSamples enc ucBuffer uiSize fp (world s)
      in (r, s\<lparr>world := w, calls := calls s @ [Ev_AVI_AddAudioSamples ucBuffer uiSize fp r]\<rparr>))"

definition do_AVI_AddVideoFrame :: "'w encoders \<Rightarrow> handle \<Rightarrow> 'w state \<Rightarrow> int \<times> 'w state" where
  "do_AVI_AddVideoFrame enc fp s =
     (let (r, w) = AVI_AddVideoFrame enc fp (world s)
      in (r, s\<lparr>world := w, calls := calls s @ [Ev_AVI_AddVideoFrame fp r]\<rparr>))"

definition do_AVI_CloseFile :: "'w encoders \<Rightarrow> handle \<Rightarrow> 'w state \<Rightarrow> int \<times> 'w state" where
  "do_AVI_CloseFile enc fp s =
     (let (r, w) = AVI_CloseFile enc fp (world s)
      in (r, s\<lparr>world := w, calls := calls s @ [Ev_AVI_CloseFile fp r]\<rparr>))"

subsection \<open>The functions of multimedia.c\<close>

text \<open>\<open>return FALSE || sndoutput != NULL || avioutput != NULL;\<close>\<close>

definition Multimedia_IsFileOpen :: "'w state \<Rightarrow> int \<times> 'w state" where
  "Multimedia_IsFileOpen s =
     (c_bool (FALSE \<noteq> 0 \<or> sndoutput s \<noteq> None \<or> avioutput s \<noteq> None), s)"

text \<open>
  \<open>bSuccess\<close> starts as \<open>TRUE\<close>; each of the two pointers that is not \<open>NULL\<close> is closed
  by its encoder, whose result overwrites \<open>bSuccess\<close>, and is set to \<open>NULL\<close>.
\<close>

definition Multimedia_CloseFile :: "'w encoders \<Rightarrow> 'w state \<Rightarrow> int \<times> 'w state" where
  "Multimedia_CloseFile enc s0 =
     (let bSuccess = TRUE;
          (bSuccess, s1) =
            (case sndoutput s0 of
               Some fp \<Rightarrow>
                 (let (r, s) = do_WAV_CloseFile enc fp s0
                  in (r, s\<lparr>sndoutput := None\<rparr>))
             | None \<Rightarrow> (bSuccess, s0));
          (bSuccess, s2) =
            (case avioutput s1 of
               Some fp \<Rightarrow>
                 (let (r, s) = do_AVI_CloseFile enc fp s1
                  in (r, s\<lparr>avioutput := None\<rparr>))
             | None \<Rightarrow> (bSuccess, s1))
      in (bSuccess, s2))"

definition Multimedia_OpenSoundFile :: "'w encoders \<Rightarrow> string \<Rightarrow> 'w state \<Rightarrow> int \<times> 'w state" where
  "Multimedia_OpenSoundFile enc szFileName s0 =
     (let (_, s1) = Multimedia_CloseFile enc s0;
          (r, s2) = do_WAV_OpenFile enc szFileName s1;
          s3 = s2\<lparr>sndoutput := r\<rparr>
      in (c_bool (sndoutput s3 \<noteq> None), s3))"

definition Multimedia_WriteAudio ::
  "'w encoders \<Rightarrow> buffer_ptr \<Rightarrow> 32 word \<Rightarrow> 'w state \<Rightarrow> int \<times> 'w state" where
  "Multimedia_WriteAudio enc ucBuffer uiSize s0 =
     (let result = 0
      in if ucBuffer \<noteq> None \<and> uiSize \<noteq> 0 then
           (case sndoutput s0 of
              Some fp \<Rightarrow>
                (let (result, s1) = do_WAV_WriteSamples enc ucBuffer uiSize fp s0
                 in if result = 0 then (result, snd (Multimedia_CloseFile enc s1))
                    else (result, s1))
            | None \<Rightarrow>
                (case avioutput s0 of
                   Some fp \<Rightarrow>
                     (let (result, s1) = do_AVI_AddAudioSamples enc ucBuffer uiSize fp s0
                      in if result = 0 then (result, snd (Multimedia_CloseFile enc s1))
                         else (result, s1))
                 | None \<Rightarrow> (result, s0)))
         else (result, s0))"

definition Multimedia_OpenVideoFile :: "'w encoders \<Rightarrow> string \<Rightarrow> 'w state \<Rightarrow> int \<times> 'w state" where
  "Multimedia_OpenVideoFile enc szFileName s0 =
     (let (_, s1) = Multimedia_CloseFile enc s0;
          (r, s2) = do_AVI_OpenFile enc szFileName s1;
          s3 = s2\<lparr>avioutput := r\<rparr>
      in (c_bool (avioutput s3 \<noteq> None), s3))"

definition Multimedia_WriteVideo :: "'w encoders \<Rightarrow> 'w state \<Rightarrow> int \<times> 'w state" where
  "Multimedia_WriteVideo enc s0 =
     (let result = 0
      in (case avioutput s0 of
            Some fp \<Rightarrow>
              (let (result, s1) = do_AVI_AddVideoFrame enc fp s0
               in if result = 0 then (result, snd (Multimedia_CloseFile enc s1))
                  else (result, s1))
          | None \<Rightarrow> (result, s0)))"

subsection \<open>Sequences of calls\<close>

datatype call =
    OpenSoundFile string
  | OpenVideoFile string
  | CloseFile
  | WriteAudio buffer_ptr "32 word"
  | WriteVideo
  | IsFileOpen

fun exec :: "'w encoders \<Rightarrow> call \<Rightarrow> 'w state \<Rightarrow> int \<times> 'w state" where
  "exec enc (OpenSoundFile szFileName) s = Multimedia_OpenSoundFile enc szFileName s"
| "exec enc (OpenVideoFile szFileName) s = Multimedia_OpenVideoFile enc szFileName s"
| "exec enc CloseFile s = Multimedia_CloseFile enc s"
| "exec enc (WriteAudio ucBuffer uiSize) s = Multimedia_WriteAudio enc ucBuffer uiSize s"
| "exec enc WriteVideo s = Multimedia_WriteVideo enc s"
| "exec enc IsFileOpen s = Multimedia_IsFileOpen s"

primrec run :: "'w encoders \<Rightarrow> call list \<Rightarrow> 'w state \<Rightarrow> 'w state" where
  "run enc [] s = s"
| "run enc (c # cs) s = run enc cs (snd (exec enc c s))"

text \<open>
  What a caller and the encoders see of a call: the call, its result, and the encoder
  calls made during it.
\<close>

type_synonym observation = "call \<times> int \<times> event list"

definition emitted :: "'w state \<Rightarrow> 'w state \<Rightarrow> event list" where
  "emitted s s' = drop (length (calls s)) (calls s')"

primrec observe :: "'w encoders \<Rightarrow> call list \<Rightarrow> 'w state \<Rightarrow> observation list" where
  "observe enc [] s = []"
| "observe enc (c # cs) s =
     (c, fst (exec enc c s), emitted s (snd (exec enc c s)))
       # observe enc cs (snd (exec enc c s))"

subsection \<open>The history of a session, in the words of the specification\<close>

text \<open>
  An open call succeeded when it returned non-zero. A write failure is an encoder
  rejecting a write: one of the three write primitives was called and returned 0.
\<close>

fun is_write_event :: "event \<Rightarrow> bool" where
  "is_write_event (Ev_WAV_WriteSamples _ _ _ _) = True"
| "is_write_event (Ev_AVI_AddAudioSamples _ _ _ _) = True"
| "is_write_event (Ev_AVI_AddVideoFrame _ _) = True"
| "is_write_event _ = False"

fun write_rejected :: "event \<Rightarrow> bool" where
  "write_rejected (Ev_WAV_WriteSamples _ _ _ r) = (r = 0)"
| "write_rejected (Ev_AVI_AddAudioSamples _ _ _ r) = (r = 0)"
| "write_rejected (Ev_AVI_AddVideoFrame _ r) = (r = 0)"
| "write_rejected _ = False"

fun is_open_call :: "call \<Rightarrow> bool" where
  "is_open_call (OpenSoundFile _) = True"
| "is_open_call (OpenVideoFile _) = True"
| "is_open_call _ = False"

text \<open>
  \<open>open_since\<close> reads a history from the most recent call backwards: it is true iff
  it reaches an open call that succeeded before it meets a close or a write failure.
\<close>

fun open_since :: "observation list \<Rightarrow> bool" where
  "open_since [] = False"
| "open_since ((c, r, evs) # earlier) =
     (if is_open_call c then r \<noteq> 0
      else if c = CloseFile \<or> list_ex write_rejected evs then False
      else open_since earlier)"

subsection \<open>Encoders for concrete runs\<close>

text \<open>
  Encoders whose open calls return \<open>opened\<close>, whose write primitives return \<open>written\<close>
  and whose close calls return \<open>closed\<close>; the world counts the calls.
\<close>

definition fixed_encoders :: "file_ptr \<Rightarrow> int \<Rightarrow> int \<Rightarrow> nat encoders" where
  "fixed_encoders opened written closed =
     \<lparr>WAV_OpenFile = (\<lambda>szFileName w. (opened, Suc w)),
      WAV_WriteSamples = (\<lambda>ucBuffer uiSize fp w. (written, Suc w)),
      WAV_CloseFile = (\<lambda>fp w. (closed, Suc w)),
      AVI_OpenFile = (\<lambda>szFileName w. (opened, Suc w)),
      AVI_AddAudioSamples = (\<lambda>ucBuffer uiSize fp w. (written, Suc w)),
      AVI_AddVideoFrame = (\<lambda>fp w. (written, Suc w)),
      AVI_CloseFile = (\<lambda>fp w. (closed, Suc w))\<rparr>"

text \<open>A session with the sound file \<open>fp\<close> open, and one with the video file \<open>fp\<close> open.\<close>

definition recording_audio :: "handle \<Rightarrow> nat state" where
  "recording_audio fp = \<lparr>sndoutput = Some fp, avioutput = None, world = 0, calls = []\<rparr>"

definition recording_video :: "handle \<Rightarrow> nat state" where
  "recording_video fp = \<lparr>sndoutput = None, avioutput = Some fp, world = 0, calls = []\<rparr>"

section \<open>Properties\<close>

subsection \<open>Auxiliary facts\<close>

lemmas do_defs = do_WAV_OpenFile_def do_WAV_WriteSamples_def do_WAV_CloseFile_def
  do_AVI_OpenFile_def do_AVI_AddAudioSamples_def do_AVI_AddVideoFrame_def do_AVI_CloseFile_def

lemmas fn_defs = Multimedia_IsFileOpen_def Multimedia_OpenSoundFile_def
  Multimedia_OpenVideoFile_def Multimedia_WriteAudio_def Multimedia_WriteVideo_def

lemmas c_defs = TRUE_def FALSE_def c_bool_def

lemmas test_defs = fixed_encoders_def recording_audio_def recording_video_def initial_def

text \<open>\<open>Multimedia_CloseFile\<close>, by the four combinations of the two pointers.\<close>

lemma CloseFile_cases:
  "Multimedia_CloseFile enc s =
     (case (sndoutput s, avioutput s) of
        (None, None) \<Rightarrow> (TRUE, s)
      | (Some a, None) \<Rightarrow>
          (fst (WAV_CloseFile enc a (world s)),
           s\<lparr>sndoutput := None, world := snd (WAV_CloseFile enc a (world s)),
             calls := calls s @ [Ev_WAV_CloseFile a (fst (WAV_CloseFile enc a (world s)))]\<rparr>)
      | (None, Some v) \<Rightarrow>
          (fst (AVI_CloseFile enc v (world s)),
           s\<lparr>avioutput := None, world := snd (AVI_CloseFile enc v (world s)),
             calls := calls s @ [Ev_AVI_CloseFile v (fst (AVI_CloseFile enc v (world s)))]\<rparr>)
      | (Some a, Some v) \<Rightarrow>
          (let w1 = snd (WAV_CloseFile enc a (world s)) in
           (fst (AVI_CloseFile enc v w1),
            s\<lparr>sndoutput := None, avioutput := None, world := snd (AVI_CloseFile enc v w1),
              calls := calls s @ [Ev_WAV_CloseFile a (fst (WAV_CloseFile enc a (world s))),
                                  Ev_AVI_CloseFile v (fst (AVI_CloseFile enc v w1))]\<rparr>)))"
  by (simp add: Multimedia_CloseFile_def do_defs Let_def case_prod_beta split: option.splits)

lemma CloseFile_handles:
  "sndoutput (snd (Multimedia_CloseFile enc s)) = None"
  "avioutput (snd (Multimedia_CloseFile enc s)) = None"
  by (simp_all add: CloseFile_cases Let_def split: option.splits)

lemma run_append: "run enc (cs @ ds) s = run enc ds (run enc cs s)"
  by (induction cs arbitrary: s) simp_all

lemma observe_append:
  "observe enc (cs @ ds) s = observe enc cs s @ observe enc ds (run enc cs s)"
  by (induction cs arbitrary: s) simp_all

subsection \<open>At most one file is open\<close>

lemma exec_exclusive:
  "sndoutput s = None \<or> avioutput s = None \<Longrightarrow>
   sndoutput (snd (exec enc c s)) = None \<or> avioutput (snd (exec enc c s)) = None"
  by (cases c)
     (auto simp: fn_defs do_defs CloseFile_cases Let_def case_prod_beta split: option.splits)

lemma run_exclusive:
  "sndoutput s = None \<or> avioutput s = None \<Longrightarrow>
   sndoutput (run enc cs s) = None \<or> avioutput (run enc cs s) = None"
proof (induction cs arbitrary: s)
  case Nil
  then show ?case by simp
next
  case (Cons c cs)
  from Cons.prems
  have "sndoutput (snd (exec enc c s)) = None \<or> avioutput (snd (exec enc c s)) = None"
    by (rule exec_exclusive)
  then show ?case using Cons.IH by simp
qed

text \<open>
  C1. Starting from the initial state, where no file is open, after every sequence of
  calls of the module's functions, with encoders that behave in any way, at least one of
  \<open>sndoutput\<close> and \<open>avioutput\<close> is \<open>NULL\<close>: at most one of the two files is open.
\<close>

theorem mutual_exclusion:
  "sndoutput (run enc cs (initial w)) = None \<or> avioutput (run enc cs (initial w)) = None"
  by (rule run_exclusive) (simp add: initial_def)

subsection \<open>A rejected write closes the file\<close>

text \<open>
  C2. In every state, when \<open>Multimedia_WriteAudio\<close> is called with a buffer that is not
  \<open>NULL\<close> and a size that is not zero and the encoder it reaches (the WAV writer when the
  sound file is open, the AVI writer's audio primitive when only the video file is open)
  returns 0, the session is closed by force: the state after the call is the one
  \<open>Multimedia_CloseFile\<close> leaves when run right after the rejected write, the encoder's
  close function has been called on every file that was open (with one file open the
  encoder calls of the write are exactly the rejected write followed by the close of
  that file), both pointers are \<open>NULL\<close>, \<open>Multimedia_IsFileOpen\<close> is false right after
  the call, and the call returns 0. The same holds for \<open>Multimedia_WriteVideo\<close> when the
  video file is open and the frame primitive returns 0.
\<close>

theorem write_failure_closes:
  "(ucBuffer \<noteq> None \<and> uiSize \<noteq> 0 \<and> sndoutput s = Some fp
      \<and> fst (WAV_WriteSamples enc ucBuffer uiSize fp (world s)) = 0
    \<longrightarrow> fst (Multimedia_WriteAudio enc ucBuffer uiSize s) = 0
        \<and> fst (Multimedia_IsFileOpen (snd (Multimedia_WriteAudio enc ucBuffer uiSize s))) = FALSE
        \<and> snd (Multimedia_WriteAudio enc ucBuffer uiSize s) =
            snd (Multimedia_CloseFile enc (snd (do_WAV_WriteSamples enc ucBuffer uiSize fp s)))
        \<and> statics (snd (Multimedia_WriteAudio enc ucBuffer uiSize s)) = (None, None)
        \<and> (\<exists>b. Ev_WAV_CloseFile fp b
              \<in> set (emitted s (snd (Multimedia_WriteAudio enc ucBuffer uiSize s))))
        \<and> (\<forall>v. avioutput s = Some v \<longrightarrow>
              (\<exists>b. Ev_AVI_CloseFile v b
                 \<in> set (emitted s (snd (Multimedia_WriteAudio enc ucBuffer uiSize s)))))
        \<and> (avioutput s = None \<longrightarrow>
              emitted s (snd (Multimedia_WriteAudio enc ucBuffer uiSize s)) =
                [Ev_WAV_WriteSamples ucBuffer uiSize fp 0,
                 Ev_WAV_CloseFile fp
                   (fst (WAV_CloseFile enc fp
                      (snd (WAV_WriteSamples enc ucBuffer uiSize fp (world s)))))]))
   \<and> (ucBuffer \<noteq> None \<and> uiSize \<noteq> 0 \<and> sndoutput s = None \<and> avioutput s = Some fp
      \<and> fst (AVI_AddAudioSamples enc ucBuffer uiSize fp (world s)) = 0
    \<longrightarrow> fst (Multimedia_WriteAudio enc ucBuffer uiSize s) = 0
        \<and> fst (Multimedia_IsFileOpen (snd (Multimedia_WriteAudio enc ucBuffer uiSize s))) = FALSE
        \<and> snd (Multimedia_WriteAudio enc ucBuffer uiSize s) =
            snd (Multimedia_CloseFile enc (snd (do_AVI_AddAudioSamples enc ucBuffer uiSize fp s)))
        \<and> statics (snd (Multimedia_WriteAudio enc ucBuffer uiSize s)) = (None, None)
        \<and> emitted s (snd (Multimedia_WriteAudio enc ucBuffer uiSize s)) =
            [Ev_AVI_AddAudioSamples ucBuffer uiSize fp 0,
             Ev_AVI_CloseFile fp
               (fst (AVI_CloseFile enc fp
                  (snd (AVI_AddAudioSamples enc ucBuffer uiSize fp (world s)))))])
   \<and> (avioutput s = Some fp \<and> fst (AVI_AddVideoFrame enc fp (world s)) = 0
    \<longrightarrow> fst (Multimedia_WriteVideo enc s) = 0
        \<and> fst (Multimedia_IsFileOpen (snd (Multimedia_WriteVideo enc s))) = FALSE
        \<and> snd (Multimedia_WriteVideo enc s) =
            snd (Multimedia_CloseFile enc (snd (do_AVI_AddVideoFrame enc fp s)))
        \<and> statics (snd (Multimedia_WriteVideo enc s)) = (None, None)
        \<and> (\<exists>b. Ev_AVI_CloseFile fp b \<in> set (emitted s (snd (Multimedia_WriteVideo enc s))))
        \<and> (\<forall>a. sndoutput s = Some a \<longrightarrow>
              (\<exists>b. Ev_WAV_CloseFile a b \<in> set (emitted s (snd (Multimedia_WriteVideo enc s)))))
        \<and> (sndoutput s = None \<longrightarrow>
              emitted s (snd (Multimedia_WriteVideo enc s)) =
                [Ev_AVI_AddVideoFrame fp 0,
                 Ev_AVI_CloseFile fp
                   (fst (AVI_CloseFile enc fp (snd (AVI_AddVideoFrame enc fp (world s)))))]))"
proof -
  show ?thesis
    by (auto simp: fn_defs do_defs c_defs statics_def emitted_def CloseFile_cases Let_def
          case_prod_beta split: option.splits)
qed

theorem write_failure_closes_witness:
  "sndoutput (recording_audio 3) = Some 3 \<and> avioutput (recording_audio 3) = None
   \<and> fst (WAV_WriteSamples (fixed_encoders None 0 0) (Some [1, 2]) 2 3
        (world (recording_audio 3))) = 0
   \<and> fst (Multimedia_WriteAudio (fixed_encoders None 0 0) (Some [1, 2]) 2 (recording_audio 3)) = 0
   \<and> fst (Multimedia_IsFileOpen (snd (Multimedia_WriteAudio (fixed_encoders None 0 0)
        (Some [1, 2]) 2 (recording_audio 3)))) = FALSE
   \<and> emitted (recording_audio 3) (snd (Multimedia_WriteAudio (fixed_encoders None 0 0)
        (Some [1, 2]) 2 (recording_audio 3)))
      = [Ev_WAV_WriteSamples (Some [1, 2]) 2 3 0, Ev_WAV_CloseFile 3 0]
   \<and> sndoutput (recording_video 4) = None \<and> avioutput (recording_video 4) = Some 4
   \<and> fst (AVI_AddAudioSamples (fixed_encoders None 0 0) (Some [1, 2]) 2 4
        (world (recording_video 4))) = 0
   \<and> fst (Multimedia_WriteAudio (fixed_encoders None 0 0) (Some [1, 2]) 2 (recording_video 4)) = 0
   \<and> fst (Multimedia_IsFileOpen (snd (Multimedia_WriteAudio (fixed_encoders None 0 0)
        (Some [1, 2]) 2 (recording_video 4)))) = FALSE
   \<and> emitted (recording_video 4) (snd (Multimedia_WriteAudio (fixed_encoders None 0 0)
        (Some [1, 2]) 2 (recording_video 4)))
      = [Ev_AVI_AddAudioSamples (Some [1, 2]) 2 4 0, Ev_AVI_CloseFile 4 0]
   \<and> fst (AVI_AddVideoFrame (fixed_encoders None 0 0) 4 (world (recording_video 4))) = 0
   \<and> fst (Multimedia_WriteVideo (fixed_encoders None 0 0) (recording_video 4)) = 0
   \<and> fst (Multimedia_IsFileOpen (snd (Multimedia_WriteVideo (fixed_encoders None 0 0)
        (recording_video 4)))) = FALSE
   \<and> emitted (recording_video 4) (snd (Multimedia_WriteVideo (fixed_encoders None 0 0)
        (recording_video 4)))
      = [Ev_AVI_AddVideoFrame 4 0, Ev_AVI_CloseFile 4 0]"
proof -
  have a: "sndoutput (recording_audio 3) = Some 3" "avioutput (recording_audio 3) = None"
    "fst (WAV_WriteSamples (fixed_encoders None 0 0) (Some [1, 2]) 2 3
        (world (recording_audio 3))) = 0"
    "fst (WAV_CloseFile (fixed_encoders None 0 0) 3
        (snd (WAV_WriteSamples (fixed_encoders None 0 0) (Some [1, 2]) 2 3
          (world (recording_audio 3))))) = 0"
    by (simp_all add: test_defs)
  have v: "sndoutput (recording_video 4) = None" "avioutput (recording_video 4) = Some 4"
    "fst (AVI_AddAudioSamples (fixed_encoders None 0 0) (Some [1, 2]) 2 4
        (world (recording_video 4))) = 0"
    "fst (AVI_AddVideoFrame (fixed_encoders None 0 0) 4 (world (recording_video 4))) = 0"
    "fst (AVI_CloseFile (fixed_encoders None 0 0) 4
        (snd (AVI_AddAudioSamples (fixed_encoders None 0 0) (Some [1, 2]) 2 4
          (world (recording_video 4))))) = 0"
    "fst (AVI_CloseFile (fixed_encoders None 0 0) 4
        (snd (AVI_AddVideoFrame (fixed_encoders None 0 0) 4 (world (recording_video 4))))) = 0"
    by (simp_all add: test_defs)
  note snd_case =
    write_failure_closes [of "Some [1, 2]" 2 "recording_audio 3" 3 "fixed_encoders None 0 0",
      simplified a, simplified]
  note avi_case =
    write_failure_closes [of "Some [1, 2]" 2 "recording_video 4" 4 "fixed_encoders None 0 0",
      simplified v, simplified]
  from a v snd_case avi_case show ?thesis by blast
qed

subsection \<open>What Multimedia\_IsFileOpen reports\<close>

text \<open>The effect of one call on the answer of \<open>Multimedia_IsFileOpen\<close>.\<close>

lemma IsFileOpen_step:
  "(fst (Multimedia_IsFileOpen (snd (exec enc c s))) = TRUE) =
     (if is_open_call c then fst (exec enc c s) \<noteq> 0
      else if c = CloseFile \<or> list_ex write_rejected (emitted s (snd (exec enc c s))) then False
      else fst (Multimedia_IsFileOpen s) = TRUE)"
  by (cases c)
     (auto simp: fn_defs do_defs c_defs emitted_def CloseFile_cases Let_def case_prod_beta
           split: option.splits)

lemma IsFileOpen_run:
  "(fst (Multimedia_IsFileOpen (run enc cs (initial w))) = TRUE) =
     open_since (rev (observe enc cs (initial w)))"
proof (induction cs rule: rev_induct)
  case Nil
  show ?case by (simp add: Multimedia_IsFileOpen_def initial_def c_defs)
next
  case (snoc c cs)
  show ?case
    unfolding run_append observe_append
    using snoc.IH IsFileOpen_step [of enc c "run enc cs (initial w)"]
    by simp
qed

text \<open>
  C3. \<open>Multimedia_IsFileOpen\<close> leaves the state as it is, and answers true iff one of
  the two pointers is not \<open>NULL\<close> (and false iff both are). After every sequence of calls
  from the initial state it answers true iff, reading the history backwards, the most
  recent open call succeeded and neither a close call nor a write rejected by an encoder
  came after it.
\<close>

theorem IsFileOpen_pure_query:
  "snd (Multimedia_IsFileOpen (s :: 'w state)) = s
   \<and> (fst (Multimedia_IsFileOpen s) = TRUE) = (sndoutput s \<noteq> None \<or> avioutput s \<noteq> None)
   \<and> (fst (Multimedia_IsFileOpen s) = FALSE) = (sndoutput s = None \<and> avioutput s = None)
   \<and> (fst (Multimedia_IsFileOpen (run enc cs (initial (w :: 'w)))) = TRUE) =
        open_since (rev (observe enc cs (initial w)))
   \<and> (fst (Multimedia_IsFileOpen (run enc cs (initial w))) = FALSE) =
        (\<not> open_since (rev (observe enc cs (initial w))))"
proof -
  have total: "fst (Multimedia_IsFileOpen t) = TRUE \<or> fst (Multimedia_IsFileOpen t) = FALSE"
    and excl: "fst (Multimedia_IsFileOpen t) = TRUE \<Longrightarrow> fst (Multimedia_IsFileOpen t) \<noteq> FALSE"
    for t :: "'w state"
    by (simp_all add: Multimedia_IsFileOpen_def c_defs)
  have a: "snd (Multimedia_IsFileOpen s) = s"
    by (simp add: Multimedia_IsFileOpen_def)
  have b: "(fst (Multimedia_IsFileOpen s) = TRUE) = (sndoutput s \<noteq> None \<or> avioutput s \<noteq> None)"
    by (simp add: Multimedia_IsFileOpen_def c_defs)
  have c: "(fst (Multimedia_IsFileOpen s) = FALSE) = (sndoutput s = None \<and> avioutput s = None)"
    by (simp add: Multimedia_IsFileOpen_def c_defs)
  have d: "(fst (Multimedia_IsFileOpen (run enc cs (initial w))) = TRUE) =
        open_since (rev (observe enc cs (initial w)))"
    by (rule IsFileOpen_run)
  have e: "(fst (Multimedia_IsFileOpen (run enc cs (initial w))) = FALSE) =
        (\<not> open_since (rev (observe enc cs (initial w))))"
    using d total [of "run enc cs (initial w)"] excl [of "run enc cs (initial w)"] by blast
  from a b c d e show ?thesis by blast
qed

theorem IsFileOpen_pure_query_witness:
  "open_since (rev (observe (fixed_encoders (Some 3) 1 1)
       [OpenSoundFile ''a.wav'', WriteAudio (Some [1, 2]) 2, IsFileOpen, WriteVideo] (initial 0)))
   \<and> fst (Multimedia_IsFileOpen (run (fixed_encoders (Some 3) 1 1)
       [OpenSoundFile ''a.wav'', WriteAudio (Some [1, 2]) 2, IsFileOpen, WriteVideo] (initial 0))) = TRUE
   \<and> \<not> open_since (rev (observe (fixed_encoders (Some 3) 0 1)
       [OpenVideoFile ''v.avi'', WriteAudio (Some [1, 2]) 2, WriteVideo] (initial 0)))
   \<and> fst (Multimedia_IsFileOpen (run (fixed_encoders (Some 3) 0 1)
       [OpenVideoFile ''v.avi'', WriteAudio (Some [1, 2]) 2, WriteVideo] (initial 0))) = FALSE"
proof -
  have a: "open_since (rev (observe (fixed_encoders (Some 3) 1 1)
       [OpenSoundFile ''a.wav'', WriteAudio (Some [1, 2]) 2, IsFileOpen, WriteVideo] (initial 0)))"
    by (simp add: fn_defs do_defs c_defs test_defs emitted_def CloseFile_cases
          Let_def case_prod_beta)
  have b: "\<not> open_since (rev (observe (fixed_encoders (Some 3) 0 1)
       [OpenVideoFile ''v.avi'', WriteAudio (Some [1, 2]) 2, WriteVideo] (initial 0)))"
    by (simp add: fn_defs do_defs c_defs test_defs emitted_def CloseFile_cases
          Let_def case_prod_beta)
  from a b
    IsFileOpen_pure_query [of "initial 0" "fixed_encoders (Some 3) 1 1"
      "[OpenSoundFile ''a.wav'', WriteAudio (Some [1, 2]) 2, IsFileOpen, WriteVideo]" 0]
    IsFileOpen_pure_query [of "initial 0" "fixed_encoders (Some 3) 0 1"
      "[OpenVideoFile ''v.avi'', WriteAudio (Some [1, 2]) 2, WriteVideo]" 0]
  show ?thesis by blast
qed

subsection \<open>Opening closes what was open\<close>

text \<open>
  C4. \<open>Multimedia_OpenSoundFile\<close> first does what \<open>Multimedia_CloseFile\<close> does: both
  pointers are \<open>NULL\<close> then, and a file that was open has been given to its encoder's
  close function. Only after that the WAV writer's open function is called, once, on the
  world the close left. When it returns a file the call returns \<open>TRUE\<close> and \<open>sndoutput\<close>
  is that file; when it returns \<open>NULL\<close> the call returns \<open>FALSE\<close> and no file is open.
  \<open>Multimedia_OpenVideoFile\<close> does the same with the AVI writer and \<open>avioutput\<close>.
\<close>

theorem open_supersedes:
  "(let s1 = snd (Multimedia_CloseFile enc s);
        r = fst (WAV_OpenFile enc szFileName (world s1));
        (ret, s') = Multimedia_OpenSoundFile enc szFileName s
    in sndoutput s1 = None \<and> avioutput s1 = None
       \<and> emitted s s' = emitted s s1 @ [Ev_WAV_OpenFile szFileName r]
       \<and> (\<forall>fp. sndoutput s = Some fp \<longrightarrow> (\<exists>b. Ev_WAV_CloseFile fp b \<in> set (emitted s s1)))
       \<and> (\<forall>fp. avioutput s = Some fp \<longrightarrow> (\<exists>b. Ev_AVI_CloseFile fp b \<in> set (emitted s s1)))
       \<and> (r \<noteq> None \<longrightarrow> ret = TRUE \<and> sndoutput s' = r \<and> avioutput s' = None)
       \<and> (r = None \<longrightarrow> ret = FALSE \<and> sndoutput s' = None \<and> avioutput s' = None))
   \<and> (let s1 = snd (Multimedia_CloseFile enc s);
        r = fst (AVI_OpenFile enc szFileName (world s1));
        (ret, s') = Multimedia_OpenVideoFile enc szFileName s
    in sndoutput s1 = None \<and> avioutput s1 = None
       \<and> emitted s s' = emitted s s1 @ [Ev_AVI_OpenFile szFileName r]
       \<and> (\<forall>fp. sndoutput s = Some fp \<longrightarrow> (\<exists>b. Ev_WAV_CloseFile fp b \<in> set (emitted s s1)))
       \<and> (\<forall>fp. avioutput s = Some fp \<longrightarrow> (\<exists>b. Ev_AVI_CloseFile fp b \<in> set (emitted s s1)))
       \<and> (r \<noteq> None \<longrightarrow> ret = TRUE \<and> avioutput s' = r \<and> sndoutput s' = None)
       \<and> (r = None \<longrightarrow> ret = FALSE \<and> sndoutput s' = None \<and> avioutput s' = None))"
  by (auto simp: fn_defs do_defs c_defs emitted_def CloseFile_cases Let_def case_prod_beta
           split: option.splits)

theorem open_supersedes_witness:
  "avioutput (recording_video 4) = Some 4
   \<and> fst (WAV_OpenFile (fixed_encoders (Some 3) 1 0) ''a.wav''
        (world (snd (Multimedia_CloseFile (fixed_encoders (Some 3) 1 0) (recording_video 4)))))
      = Some 3
   \<and> fst (Multimedia_OpenSoundFile (fixed_encoders (Some 3) 1 0) ''a.wav'' (recording_video 4))
      = TRUE
   \<and> statics (snd (Multimedia_OpenSoundFile (fixed_encoders (Some 3) 1 0) ''a.wav''
        (recording_video 4))) = (Some 3, None)
   \<and> emitted (recording_video 4)
        (snd (Multimedia_OpenSoundFile (fixed_encoders (Some 3) 1 0) ''a.wav''
          (recording_video 4)))
      = [Ev_AVI_CloseFile 4 0, Ev_WAV_OpenFile ''a.wav'' (Some 3)]
   \<and> sndoutput (recording_audio 3) = Some 3
   \<and> fst (AVI_OpenFile (fixed_encoders None 1 1) ''v.avi''
        (world (snd (Multimedia_CloseFile (fixed_encoders None 1 1) (recording_audio 3)))))
      = None
   \<and> fst (Multimedia_OpenVideoFile (fixed_encoders None 1 1) ''v.avi'' (recording_audio 3))
      = FALSE
   \<and> statics (snd (Multimedia_OpenVideoFile (fixed_encoders None 1 1) ''v.avi''
        (recording_audio 3))) = (None, None)
   \<and> emitted (recording_audio 3)
        (snd (Multimedia_OpenVideoFile (fixed_encoders None 1 1) ''v.avi''
          (recording_audio 3)))
      = [Ev_WAV_CloseFile 3 1, Ev_AVI_OpenFile ''v.avi'' None]"
proof -
  have v: "avioutput (recording_video 4) = Some 4"
    "fst (WAV_OpenFile (fixed_encoders (Some 3) 1 0) ''a.wav''
        (world (snd (Multimedia_CloseFile (fixed_encoders (Some 3) 1 0) (recording_video 4)))))
      = Some 3"
    "emitted (recording_video 4)
        (snd (Multimedia_CloseFile (fixed_encoders (Some 3) 1 0) (recording_video 4)))
      = [Ev_AVI_CloseFile 4 0]"
    by (simp_all add: test_defs CloseFile_cases emitted_def)
  have a: "sndoutput (recording_audio 3) = Some 3"
    "fst (AVI_OpenFile (fixed_encoders None 1 1) ''v.avi''
        (world (snd (Multimedia_CloseFile (fixed_encoders None 1 1) (recording_audio 3)))))
      = None"
    "emitted (recording_audio 3)
        (snd (Multimedia_CloseFile (fixed_encoders None 1 1) (recording_audio 3)))
      = [Ev_WAV_CloseFile 3 1]"
    by (simp_all add: test_defs CloseFile_cases emitted_def)
  from v a
    open_supersedes [of "fixed_encoders (Some 3) 1 0" "recording_video 4" "''a.wav''"]
    open_supersedes [of "fixed_encoders None 1 1" "recording_audio 3" "''v.avi''"]
  show ?thesis by (simp add: Let_def case_prod_beta statics_def)
qed

subsection \<open>Closing\<close>

text \<open>
  C5. After \<open>Multimedia_CloseFile\<close>, in every state and whatever the encoders' close
  functions return, both pointers are \<open>NULL\<close> and \<open>Multimedia_IsFileOpen\<close> is false.
  With the sound file open (and no video file) exactly one encoder call is made, the WAV
  writer's close on that file, and its result is the result of \<open>Multimedia_CloseFile\<close>;
  with the video file open (and no sound file) the same holds for the AVI writer's close.
\<close>

theorem CloseFile_clears:
  "sndoutput (snd (Multimedia_CloseFile enc s)) = None
   \<and> avioutput (snd (Multimedia_CloseFile enc s)) = None
   \<and> fst (Multimedia_IsFileOpen (snd (Multimedia_CloseFile enc s))) = FALSE
   \<and> (sndoutput s = Some fp \<and> avioutput s = None \<longrightarrow>
        emitted s (snd (Multimedia_CloseFile enc s)) =
          [Ev_WAV_CloseFile fp (fst (WAV_CloseFile enc fp (world s)))]
        \<and> fst (Multimedia_CloseFile enc s) = fst (WAV_CloseFile enc fp (world s)))
   \<and> (sndoutput s = None \<and> avioutput s = Some fp \<longrightarrow>
        emitted s (snd (Multimedia_CloseFile enc s)) =
          [Ev_AVI_CloseFile fp (fst (AVI_CloseFile enc fp (world s)))]
        \<and> fst (Multimedia_CloseFile enc s) = fst (AVI_CloseFile enc fp (world s)))"
  by (simp add: Multimedia_IsFileOpen_def c_defs CloseFile_handles)
     (simp add: CloseFile_cases emitted_def)

theorem CloseFile_clears_witness:
  "sndoutput (recording_audio 3) = Some 3 \<and> avioutput (recording_audio 3) = None
   \<and> fst (Multimedia_CloseFile (fixed_encoders None 1 0) (recording_audio 3)) = FALSE
   \<and> emitted (recording_audio 3)
        (snd (Multimedia_CloseFile (fixed_encoders None 1 0) (recording_audio 3))) =
        [Ev_WAV_CloseFile 3 0]
   \<and> fst (Multimedia_IsFileOpen
        (snd (Multimedia_CloseFile (fixed_encoders None 1 0) (recording_audio 3)))) = FALSE
   \<and> sndoutput (recording_video 4) = None \<and> avioutput (recording_video 4) = Some 4
   \<and> fst (Multimedia_CloseFile (fixed_encoders None 1 0) (recording_video 4)) = FALSE
   \<and> emitted (recording_video 4)
        (snd (Multimedia_CloseFile (fixed_encoders None 1 0) (recording_video 4))) =
        [Ev_AVI_CloseFile 4 0]"
proof -
  have a: "sndoutput (recording_audio 3) = Some 3 \<and> avioutput (recording_audio 3) = None"
    and v: "sndoutput (recording_video 4) = None \<and> avioutput (recording_video 4) = Some 4"
    by (simp_all add: test_defs)
  have r: "fst (WAV_CloseFile (fixed_encoders None 1 0) 3 (world (recording_audio 3))) = FALSE"
    "fst (AVI_CloseFile (fixed_encoders None 1 0) 4 (world (recording_video 4))) = FALSE"
    by (simp_all add: test_defs FALSE_def)
  from a v r
    CloseFile_clears [of "fixed_encoders None 1 0" "recording_audio 3" 3]
    CloseFile_clears [of "fixed_encoders None 1 0" "recording_video 4" 4]
  show ?thesis by (simp add: FALSE_def)
qed

text \<open>
  C7. With nothing open, \<open>Multimedia_CloseFile\<close> returns \<open>TRUE\<close> and leaves the whole
  state as it is, the world of the encoders and the record of their calls included: no
  encoder is called. A second close right after any close is such a call.
\<close>

theorem CloseFile_nothing_open:
  "(sndoutput s = None \<and> avioutput s = None \<longrightarrow>
      Multimedia_CloseFile enc s = (TRUE, s)
      \<and> emitted s (snd (Multimedia_CloseFile enc s)) = [])
   \<and> Multimedia_CloseFile enc (snd (Multimedia_CloseFile enc s)) =
       (TRUE, snd (Multimedia_CloseFile enc s))"
  by (auto simp: CloseFile_cases emitted_def Let_def split: option.splits)

theorem CloseFile_nothing_open_witness:
  "sndoutput (initial (0 :: nat)) = None \<and> avioutput (initial (0 :: nat)) = None
   \<and> Multimedia_CloseFile (fixed_encoders None 0 0) (initial 0) = (TRUE, initial 0)
   \<and> emitted (initial 0) (snd (Multimedia_CloseFile (fixed_encoders None 0 0) (initial 0))) = []"
proof -
  have h: "sndoutput (initial (0 :: nat)) = None \<and> avioutput (initial (0 :: nat)) = None"
    by (simp add: initial_def)
  from h CloseFile_nothing_open [of "initial 0" "fixed_encoders None 0 0"]
  show ?thesis by blast
qed

subsection \<open>Writing\<close>

text \<open>
  C6. \<open>Multimedia_WriteAudio\<close> with a buffer that is not \<open>NULL\<close> and a size that is not
  zero makes exactly one call of a write primitive: \<open>WAV_WriteSamples\<close> on the sound
  file when that is open, \<open>AVI_AddAudioSamples\<close> on the video file when that is the one
  open, each with the caller's buffer and size, and returns what the primitive returned.
  With nothing open it returns 0 and changes nothing. \<open>Multimedia_WriteVideo\<close> makes
  exactly one call of a write primitive, \<open>AVI_AddVideoFrame\<close> on the video file, when the
  video file is open, and returns its result; otherwise it returns 0 and changes nothing.
  By C1 the video file is open only while \<open>sndoutput\<close> is \<open>NULL\<close>.
\<close>

theorem write_routing:
  "(ucBuffer \<noteq> None \<and> uiSize \<noteq> 0 \<and> sndoutput s = Some fp \<longrightarrow>
      filter is_write_event (emitted s (snd (Multimedia_WriteAudio enc ucBuffer uiSize s))) =
        [Ev_WAV_WriteSamples ucBuffer uiSize fp
           (fst (WAV_WriteSamples enc ucBuffer uiSize fp (world s)))]
      \<and> fst (Multimedia_WriteAudio enc ucBuffer uiSize s) =
          fst (WAV_WriteSamples enc ucBuffer uiSize fp (world s)))
   \<and> (ucBuffer \<noteq> None \<and> uiSize \<noteq> 0 \<and> sndoutput s = None \<and> avioutput s = Some fp \<longrightarrow>
      filter is_write_event (emitted s (snd (Multimedia_WriteAudio enc ucBuffer uiSize s))) =
        [Ev_AVI_AddAudioSamples ucBuffer uiSize fp
           (fst (AVI_AddAudioSamples enc ucBuffer uiSize fp (world s)))]
      \<and> fst (Multimedia_WriteAudio enc ucBuffer uiSize s) =
          fst (AVI_AddAudioSamples enc ucBuffer uiSize fp (world s)))
   \<and> (sndoutput s = None \<and> avioutput s = None \<longrightarrow>
      Multimedia_WriteAudio enc ucBuffer uiSize s = (0, s))
   \<and> (avioutput s = Some fp \<longrightarrow>
      filter is_write_event (emitted s (snd (Multimedia_WriteVideo enc s))) =
        [Ev_AVI_AddVideoFrame fp (fst (AVI_AddVideoFrame enc fp (world s)))]
      \<and> fst (Multimedia_WriteVideo enc s) = fst (AVI_AddVideoFrame enc fp (world s)))
   \<and> (avioutput s = None \<longrightarrow> Multimedia_WriteVideo enc s = (0, s))"
  by (auto simp: fn_defs do_defs emitted_def CloseFile_cases Let_def case_prod_beta
           split: option.splits)

theorem write_routing_witness:
  "sndoutput (recording_audio 3) = Some 3
   \<and> filter is_write_event (emitted (recording_audio 3)
        (snd (Multimedia_WriteAudio (fixed_encoders None 2 1) (Some [1, 2]) 2 (recording_audio 3))))
      = [Ev_WAV_WriteSamples (Some [1, 2]) 2 3 2]
   \<and> fst (Multimedia_WriteAudio (fixed_encoders None 2 1) (Some [1, 2]) 2 (recording_audio 3)) = 2
   \<and> sndoutput (recording_video 4) = None \<and> avioutput (recording_video 4) = Some 4
   \<and> filter is_write_event (emitted (recording_video 4)
        (snd (Multimedia_WriteAudio (fixed_encoders None 2 1) (Some [1, 2]) 2 (recording_video 4))))
      = [Ev_AVI_AddAudioSamples (Some [1, 2]) 2 4 2]
   \<and> fst (Multimedia_WriteAudio (fixed_encoders None 2 1) (Some [1, 2]) 2 (recording_video 4)) = 2
   \<and> filter is_write_event (emitted (recording_video 4)
        (snd (Multimedia_WriteVideo (fixed_encoders None 2 1) (recording_video 4))))
      = [Ev_AVI_AddVideoFrame 4 2]
   \<and> fst (Multimedia_WriteVideo (fixed_encoders None 2 1) (recording_video 4)) = 2
   \<and> sndoutput (initial (0 :: nat)) = None \<and> avioutput (initial (0 :: nat)) = None
   \<and> Multimedia_WriteAudio (fixed_encoders None 2 1) (Some [1, 2]) 2 (initial 0) = (0, initial 0)
   \<and> Multimedia_WriteVideo (fixed_encoders None 2 1) (initial 0) = (0, initial 0)
   \<and> avioutput (recording_audio 3) = None
   \<and> Multimedia_WriteVideo (fixed_encoders None 2 1) (recording_audio 3) = (0, recording_audio 3)"
proof -
  have a: "sndoutput (recording_audio 3) = Some 3" "avioutput (recording_audio 3) = None"
    "fst (WAV_WriteSamples (fixed_encoders None 2 1) (Some [1, 2]) 2 3
       (world (recording_audio 3))) = 2"
    by (simp_all add: test_defs)
  have v: "sndoutput (recording_video 4) = None" "avioutput (recording_video 4) = Some 4"
    "fst (AVI_AddAudioSamples (fixed_encoders None 2 1) (Some [1, 2]) 2 4
       (world (recording_video 4))) = 2"
    "fst (AVI_AddVideoFrame (fixed_encoders None 2 1) 4 (world (recording_video 4))) = 2"
    by (simp_all add: test_defs)
  have i: "sndoutput (initial (0 :: nat)) = None" "avioutput (initial (0 :: nat)) = None"
    by (simp_all add: initial_def)
  from a v i
    write_routing [of "Some [1, 2]" 2 "recording_audio 3" 3 "fixed_encoders None 2 1"]
    write_routing [of "Some [1, 2]" 2 "recording_video 4" 4 "fixed_encoders None 2 1"]
    write_routing [of "Some [1, 2]" 2 "initial 0" 0 "fixed_encoders None 2 1"]
  show ?thesis by simp
qed

text \<open>
  C8. In every state, \<open>Multimedia_WriteAudio\<close> with a \<open>NULL\<close> buffer or with size zero
  returns 0 and leaves the whole state as it is: no encoder is called and both pointers
  keep their values.
\<close>

theorem WriteAudio_degenerate:
  "ucBuffer = None \<or> uiSize = 0 \<longrightarrow>
     Multimedia_WriteAudio enc ucBuffer uiSize s = (0, s)
     \<and> emitted s (snd (Multimedia_WriteAudio enc ucBuffer uiSize s)) = []
     \<and> statics (snd (Multimedia_WriteAudio enc ucBuffer uiSize s)) = statics s"
  by (auto simp: Multimedia_WriteAudio_def emitted_def)

theorem WriteAudio_degenerate_witness:
  "Multimedia_WriteAudio (fixed_encoders None 2 1) None 2 (recording_audio 3)
     = (0, recording_audio 3)
   \<and> Multimedia_WriteAudio (fixed_encoders None 2 1) (Some [1, 2]) 0 (recording_video 4)
     = (0, recording_video 4)
   \<and> emitted (recording_audio 3)
       (snd (Multimedia_WriteAudio (fixed_encoders None 2 1) None 2 (recording_audio 3))) = []
   \<and> emitted (recording_video 4)
       (snd (Multimedia_WriteAudio (fixed_encoders None 2 1) (Some [1, 2]) 0 (recording_video 4))) = []"
  using
    WriteAudio_degenerate [of None 2 "fixed_encoders None 2 1" "recording_audio 3"]
    WriteAudio_degenerate [of "Some [1, 2]" 0 "fixed_encoders None 2 1" "recording_video 4"]
  by blast

subsection \<open>No flag for the interleaving of audio and video\<close>

text \<open>
  C9, as stated, fails. The module has no \<open>last_audio_write_done\<close> flag: its statics
  are the two file pointers and nothing else. After a successful
  \<open>Multimedia_OpenVideoFile\<close>, a \<open>Multimedia_WriteAudio\<close> that is routed to the video
  file and accepted by the encoder leaves the statics exactly as the open left them, so
  nothing in the module's state was reset by the open and then set by the write.
\<close>

theorem no_interleave_flag_counterexample:
  "fst (Multimedia_OpenVideoFile (fixed_encoders (Some 5) 1 1) ''v.avi'' (initial 0)) = TRUE
   \<and> filter is_write_event
       (emitted
         (snd (Multimedia_OpenVideoFile (fixed_encoders (Some 5) 1 1) ''v.avi'' (initial 0)))
         (snd (Multimedia_WriteAudio (fixed_encoders (Some 5) 1 1) (Some [1, 2]) 2
           (snd (Multimedia_OpenVideoFile (fixed_encoders (Some 5) 1 1) ''v.avi'' (initial 0))))))
       = [Ev_AVI_AddAudioSamples (Some [1, 2]) 2 5 1]
   \<and> statics
        (snd (Multimedia_WriteAudio (fixed_encoders (Some 5) 1 1) (Some [1, 2]) 2
           (snd (Multimedia_OpenVideoFile (fixed_encoders (Some 5) 1 1) ''v.avi'' (initial 0)))))
     = statics
        (snd (Multimedia_OpenVideoFile (fixed_encoders (Some 5) 1 1) ''v.avi'' (initial 0)))"
  by (simp add: fn_defs do_defs c_defs test_defs emitted_def statics_def CloseFile_cases
        Let_def case_prod_beta)

text \<open>
  C9, amended. The module's state is its two file pointers. A successful
  \<open>Multimedia_OpenVideoFile\<close> leaves \<open>sndoutput\<close> \<open>NULL\<close> and \<open>avioutput\<close> the file the AVI
  writer returned; a \<open>Multimedia_WriteAudio\<close> routed to the video file and accepted by
  the encoder leaves both pointers as they were.
\<close>

theorem video_state_is_handles_only:
  "(fst (Multimedia_OpenVideoFile enc szFileName s) = TRUE \<longrightarrow>
      statics (snd (Multimedia_OpenVideoFile enc szFileName s)) =
        (None, fst (AVI_OpenFile enc szFileName (world (snd (Multimedia_CloseFile enc s)))))
      \<and> fst (AVI_OpenFile enc szFileName (world (snd (Multimedia_CloseFile enc s)))) \<noteq> None)
   \<and> (ucBuffer \<noteq> None \<and> uiSize \<noteq> 0 \<and> sndoutput s = None \<and> avioutput s = Some fp
      \<and> fst (AVI_AddAudioSamples enc ucBuffer uiSize fp (world s)) \<noteq> 0 \<longrightarrow>
      statics (snd (Multimedia_WriteAudio enc ucBuffer uiSize s)) = statics s)"
  by (simp add: fn_defs do_defs c_defs statics_def CloseFile_handles Let_def case_prod_beta)

theorem video_state_is_handles_only_witness:
  "fst (Multimedia_OpenVideoFile (fixed_encoders (Some 5) 1 1) ''v.avi'' (recording_audio 3)) = TRUE
   \<and> statics (snd (Multimedia_OpenVideoFile (fixed_encoders (Some 5) 1 1) ''v.avi''
        (recording_audio 3))) = (None, Some 5)
   \<and> sndoutput (recording_video 5) = None \<and> avioutput (recording_video 5) = Some 5
   \<and> fst (AVI_AddAudioSamples (fixed_encoders (Some 5) 1 1) (Some [1, 2]) 2 5
        (world (recording_video 5))) \<noteq> 0
   \<and> statics (snd (Multimedia_WriteAudio (fixed_encoders (Some 5) 1 1) (Some [1, 2]) 2
        (recording_video 5))) = statics (recording_video 5)"
proof -
  have a: "fst (Multimedia_OpenVideoFile (fixed_encoders (Some 5) 1 1) ''v.avi''
      (recording_audio 3)) = TRUE"
    "fst (AVI_OpenFile (fixed_encoders (Some 5) 1 1) ''v.avi''
      (world (snd (Multimedia_CloseFile (fixed_encoders (Some 5) 1 1) (recording_audio 3)))))
     = Some 5"
    by (simp_all add: Multimedia_OpenVideoFile_def do_defs c_defs test_defs CloseFile_cases
          Let_def case_prod_beta)
  have v: "sndoutput (recording_video 5) = None" "avioutput (recording_video 5) = Some 5"
    "fst (AVI_AddAudioSamples (fixed_encoders (Some 5) 1 1) (Some [1, 2]) 2 5
        (world (recording_video 5))) \<noteq> 0"
    by (simp_all add: test_defs)
  from a v
    video_state_is_handles_only [of "fixed_encoders (Some 5) 1 1" "''v.avi''" "recording_audio 3"]
    video_state_is_handles_only [of "fixed_encoders (Some 5) 1 1" _ "recording_video 5"
      "Some [1, 2]" 2 5]
  show ?thesis by simp
qed

subsection \<open>The result of an inner close is dropped\<close>

text \<open>
  C10. Whatever value \<open>b\<close> the inner \<open>Multimedia_CloseFile\<close> returns:
  \<open>Multimedia_OpenSoundFile\<close> and \<open>Multimedia_OpenVideoFile\<close> return \<open>TRUE\<close> when the
  encoder's open, called after the close, returns a file; and \<open>Multimedia_WriteAudio\<close>
  and \<open>Multimedia_WriteVideo\<close> return 0 when the write primitive they reach returns 0.
\<close>

theorem close_result_discarded:
  "(fst (Multimedia_CloseFile enc s) = b
      \<and> fst (WAV_OpenFile enc szFileName (world (snd (Multimedia_CloseFile enc s)))) \<noteq> None
     \<longrightarrow> fst (Multimedia_OpenSoundFile enc szFileName s) = TRUE)
   \<and> (fst (Multimedia_CloseFile enc s) = b
      \<and> fst (AVI_OpenFile enc szFileName (world (snd (Multimedia_CloseFile enc s)))) \<noteq> None
     \<longrightarrow> fst (Multimedia_OpenVideoFile enc szFileName s) = TRUE)
   \<and> (ucBuffer \<noteq> None \<and> uiSize \<noteq> 0 \<and> sndoutput s = Some fp
      \<and> fst (WAV_WriteSamples enc ucBuffer uiSize fp (world s)) = 0
      \<and> fst (Multimedia_CloseFile enc (snd (do_WAV_WriteSamples enc ucBuffer uiSize fp s))) = b
     \<longrightarrow> fst (Multimedia_WriteAudio enc ucBuffer uiSize s) = 0)
   \<and> (ucBuffer \<noteq> None \<and> uiSize \<noteq> 0 \<and> sndoutput s = None \<and> avioutput s = Some fp
      \<and> fst (AVI_AddAudioSamples enc ucBuffer uiSize fp (world s)) = 0
      \<and> fst (Multimedia_CloseFile enc (snd (do_AVI_AddAudioSamples enc ucBuffer uiSize fp s))) = b
     \<longrightarrow> fst (Multimedia_WriteAudio enc ucBuffer uiSize s) = 0)
   \<and> (avioutput s = Some fp
      \<and> fst (AVI_AddVideoFrame enc fp (world s)) = 0
      \<and> fst (Multimedia_CloseFile enc (snd (do_AVI_AddVideoFrame enc fp s))) = b
     \<longrightarrow> fst (Multimedia_WriteVideo enc s) = 0)"
  by (simp add: fn_defs do_defs c_defs Let_def case_prod_beta)

theorem close_result_discarded_witness:
  "fst (Multimedia_CloseFile (fixed_encoders (Some 5) 0 0) (recording_audio 3)) = FALSE
   \<and> fst (WAV_OpenFile (fixed_encoders (Some 5) 0 0) ''a.wav''
        (world (snd (Multimedia_CloseFile (fixed_encoders (Some 5) 0 0) (recording_audio 3)))))
      \<noteq> None
   \<and> fst (Multimedia_OpenSoundFile (fixed_encoders (Some 5) 0 0) ''a.wav'' (recording_audio 3))
      = TRUE
   \<and> fst (AVI_OpenFile (fixed_encoders (Some 5) 0 0) ''a.wav''
        (world (snd (Multimedia_CloseFile (fixed_encoders (Some 5) 0 0) (recording_audio 3)))))
      \<noteq> None
   \<and> fst (Multimedia_OpenVideoFile (fixed_encoders (Some 5) 0 0) ''a.wav'' (recording_audio 3))
      = TRUE
   \<and> fst (Multimedia_CloseFile (fixed_encoders (Some 5) 0 0)
        (snd (do_WAV_WriteSamples (fixed_encoders (Some 5) 0 0) (Some [1, 2]) 2 3
          (recording_audio 3)))) = FALSE
   \<and> fst (Multimedia_WriteAudio (fixed_encoders (Some 5) 0 0) (Some [1, 2]) 2
        (recording_audio 3)) = 0
   \<and> fst (Multimedia_CloseFile (fixed_encoders (Some 5) 0 1)
        (snd (do_AVI_AddAudioSamples (fixed_encoders (Some 5) 0 1) (Some [1, 2]) 2 4
          (recording_video 4)))) = TRUE
   \<and> fst (Multimedia_WriteAudio (fixed_encoders (Some 5) 0 1) (Some [1, 2]) 2
        (recording_video 4)) = 0
   \<and> fst (Multimedia_CloseFile (fixed_encoders (Some 5) 0 0)
        (snd (do_AVI_AddVideoFrame (fixed_encoders (Some 5) 0 0) 4 (recording_video 4)))) = FALSE
   \<and> fst (Multimedia_WriteVideo (fixed_encoders (Some 5) 0 0) (recording_video 4)) = 0"
proof -
  have a: "fst (Multimedia_CloseFile (fixed_encoders (Some 5) 0 0) (recording_audio 3)) = FALSE"
    "fst (WAV_OpenFile (fixed_encoders (Some 5) 0 0) ''a.wav''
        (world (snd (Multimedia_CloseFile (fixed_encoders (Some 5) 0 0) (recording_audio 3)))))
      \<noteq> None"
    "fst (AVI_OpenFile (fixed_encoders (Some 5) 0 0) ''a.wav''
        (world (snd (Multimedia_CloseFile (fixed_encoders (Some 5) 0 0) (recording_audio 3)))))
      \<noteq> None"
    "sndoutput (recording_audio 3) = Some 3"
    "fst (WAV_WriteSamples (fixed_encoders (Some 5) 0 0) (Some [1, 2]) 2 3
        (world (recording_audio 3))) = 0"
    "fst (Multimedia_CloseFile (fixed_encoders (Some 5) 0 0)
        (snd (do_WAV_WriteSamples (fixed_encoders (Some 5) 0 0) (Some [1, 2]) 2 3
          (recording_audio 3)))) = FALSE"
    by (simp_all add: test_defs c_defs do_defs CloseFile_cases)
  have v: "sndoutput (recording_video 4) = None" "avioutput (recording_video 4) = Some 4"
    "fst (AVI_AddAudioSamples (fixed_encoders (Some 5) 0 1) (Some [1, 2]) 2 4
        (world (recording_video 4))) = 0"
    "fst (Multimedia_CloseFile (fixed_encoders (Some 5) 0 1)
        (snd (do_AVI_AddAudioSamples (fixed_encoders (Some 5) 0 1) (Some [1, 2]) 2 4
          (recording_video 4)))) = TRUE"
    "fst (AVI_AddVideoFrame (fixed_encoders (Some 5) 0 0) 4 (world (recording_video 4))) = 0"
    "fst (Multimedia_CloseFile (fixed_encoders (Some 5) 0 0)
        (snd (do_AVI_AddVideoFrame (fixed_encoders (Some 5) 0 0) 4 (recording_video 4)))) = FALSE"
    by (simp_all add: test_defs c_defs do_defs CloseFile_cases)
  from a v
    close_result_discarded [of "fixed_encoders (Some 5) 0 0" "recording_audio 3" FALSE
      "''a.wav''" "Some [1, 2]" 2 3]
    close_result_discarded [of "fixed_encoders (Some 5) 0 1" "recording_video 4" TRUE
      "''a.wav''" "Some [1, 2]" 2 4]
    close_result_discarded [of "fixed_encoders (Some 5) 0 0" "recording_video 4" FALSE
      "''a.wav''" "Some [1, 2]" 2 4]
  show ?thesis by simp
qed

end
